theory Spec2Isabelle
  imports Main "HOL-Library.Word"
begin

section \<open>Binaryen IR (wasm.h): data model\<close>

subsection \<open>Value types and names\<close>

text \<open>
  Modelled from the spec: the value-type facade \<^verbatim>\<open>wasm-type.h\<close> is included by wasm.h but is
  not part of the sources. The header uses \<^verbatim>\<open>Type::none\<close>, \<^verbatim>\<open>Type::unreachable\<close>,
  \<^verbatim>\<open>Type::i32\<close> and \<^verbatim>\<open>Type::i64\<close>; the spec lists the two sentinels and the basic kinds
  (32/64-bit integer, 32/64-bit float, 128-bit vector, function and exception references).
\<close>

datatype Type = none | unreachable | i32 | i64 | f32 | f64 | v128 | funcref | exnref

definition isConcrete :: "Type \<Rightarrow> bool" where
  "isConcrete t = (t \<noteq> none \<and> t \<noteq> unreachable)"

text \<open>
  Modelled from the spec: \<^verbatim>\<open>support/name.h\<close> is not part of the sources. A \<^verbatim>\<open>Name\<close> is an
  interned string; the default-constructed name is unset, which is the empty string here.
\<close>

type_synonym Name = string

definition Name_is :: "Name \<Rightarrow> bool" where
  "Name_is n = (n \<noteq> [])"

type_synonym Index = "32 word"

subsection \<open>Expression kinds\<close>

datatype (plugins only: code size) Id =
    InvalidId
  | BlockId
  | IfId
  | LoopId
  | BreakId
  | SwitchId
  | CallId
  | CallIndirectId
  | LocalGetId
  | LocalSetId
  | GlobalGetId
  | GlobalSetId
  | LoadId
  | StoreId
  | ConstId
  | UnaryId
  | BinaryId
  | SelectId
  | DropId
  | ReturnId
  | MemorySizeId
  | MemoryGrowId
  | NopId
  | UnreachableId
  | AtomicRMWId
  | AtomicCmpxchgId
  | AtomicWaitId
  | AtomicNotifyId
  | AtomicFenceId
  | SIMDExtractId
  | SIMDReplaceId
  | SIMDShuffleId
  | SIMDTernaryId
  | SIMDShiftId
  | SIMDLoadId
  | MemoryInitId
  | DataDropId
  | MemoryCopyId
  | MemoryFillId
  | PopId
  | RefNullId
  | RefIsNullId
  | RefFuncId
  | RefEqId
  | TryId
  | ThrowId
  | RethrowId
  | BrOnExnId
  | TupleMakeId
  | TupleExtractId
  | I31NewId
  | I31GetId
  | RefTestId
  | RefCastId
  | BrOnCastId
  | RttCanonId
  | RttSubId
  | StructNewId
  | StructGetId
  | StructSetId
  | ArrayNewId
  | ArrayGetId
  | ArraySetId
  | ArrayLenId
  | NumExpressionIds

text \<open>
  \<^verbatim>\<open>int(_id)\<close>: the enumerators are numbered from \<^verbatim>\<open>InvalidId = 0\<close> in declaration order.
\<close>

primrec Id_int :: "Id \<Rightarrow> int" where
  "Id_int InvalidId = 0"
| "Id_int BlockId = 1"
| "Id_int IfId = 2"
| "Id_int LoopId = 3"
| "Id_int BreakId = 4"
| "Id_int SwitchId = 5"
| "Id_int CallId = 6"
| "Id_int CallIndirectId = 7"
| "Id_int LocalGetId = 8"
| "Id_int LocalSetId = 9"
| "Id_int GlobalGetId = 10"
| "Id_int GlobalSetId = 11"
| "Id_int LoadId = 12"
| "Id_int StoreId = 13"
| "Id_int ConstId = 14"
| "Id_int UnaryId = 15"
| "Id_int BinaryId = 16"
| "Id_int SelectId = 17"
| "Id_int DropId = 18"
| "Id_int ReturnId = 19"
| "Id_int MemorySizeId = 20"
| "Id_int MemoryGrowId = 21"
| "Id_int NopId = 22"
| "Id_int UnreachableId = 23"
| "Id_int AtomicRMWId = 24"
| "Id_int AtomicCmpxchgId = 25"
| "Id_int AtomicWaitId = 26"
| "Id_int AtomicNotifyId = 27"
| "Id_int AtomicFenceId = 28"
| "Id_int SIMDExtractId = 29"
| "Id_int SIMDReplaceId = 30"
| "Id_int SIMDShuffleId = 31"
| "Id_int SIMDTernaryId = 32"
| "Id_int SIMDShiftId = 33"
| "Id_int SIMDLoadId = 34"
| "Id_int MemoryInitId = 35"
| "Id_int DataDropId = 36"
| "Id_int MemoryCopyId = 37"
| "Id_int MemoryFillId = 38"
| "Id_int PopId = 39"
| "Id_int RefNullId = 40"
| "Id_int RefIsNullId = 41"
| "Id_int RefFuncId = 42"
| "Id_int RefEqId = 43"
| "Id_int TryId = 44"
| "Id_int ThrowId = 45"
| "Id_int RethrowId = 46"
| "Id_int BrOnExnId = 47"
| "Id_int TupleMakeId = 48"
| "Id_int TupleExtractId = 49"
| "Id_int I31NewId = 50"
| "Id_int I31GetId = 51"
| "Id_int RefTestId = 52"
| "Id_int RefCastId = 53"
| "Id_int BrOnCastId = 54"
| "Id_int RttCanonId = 55"
| "Id_int RttSubId = 56"
| "Id_int StructNewId = 57"
| "Id_int StructGetId = 58"
| "Id_int StructSetId = 59"
| "Id_int ArrayNewId = 60"
| "Id_int ArrayGetId = 61"
| "Id_int ArraySetId = 62"
| "Id_int ArrayLenId = 63"
| "Id_int NumExpressionIds = 64"

subsection \<open>The base class Expression\<close>

text \<open>
  The fields every node has: the kind tag \<^verbatim>\<open>_id\<close>, fixed by the constructor, and the output
  type \<^verbatim>\<open>type\<close>, whose in-class initialiser is \<^verbatim>\<open>Type::none\<close>. This is what a holder of an
  \<^verbatim>\<open>Expression*\<close> can read without a downcast.
\<close>

record Expression =
  expr_id :: Id
  type :: Type

text \<open>\<^verbatim>\<open>Expression(Id id) : _id(id) {}\<close> with the default member initialiser of \<^verbatim>\<open>type\<close>.\<close>

definition Expression_ctor :: "Id \<Rightarrow> Expression" where
  "Expression_ctor k = \<lparr>expr_id = k, type = none\<rparr>"

text \<open>
  The failures that end the process: a failed \<^verbatim>\<open>assert\<close>, \<^verbatim>\<open>WASM_UNREACHABLE(msg)\<close>, and
  a fatal error with its message.
\<close>

datatype fatal = AssertionFailed | WasmUnreachable string | Fatal string

text \<open>
  The template argument \<^verbatim>\<open>T\<close> of \<^verbatim>\<open>is\<close>, \<^verbatim>\<open>dynCast\<close> and \<^verbatim>\<open>cast\<close> is given by its
  \<^verbatim>\<open>T::SpecificId\<close>. A pointer result is the node itself, \<^verbatim>\<open>nullptr\<close> is \<open>None\<close>.
\<close>

definition Expression_is :: "'a Expression_scheme \<Rightarrow> Id \<Rightarrow> bool" where
  "Expression_is e SpecificId = (Id_int (expr_id e) = Id_int SpecificId)"

definition dynCast :: "'a Expression_scheme \<Rightarrow> Id \<Rightarrow> 'a Expression_scheme option" where
  "dynCast e SpecificId = (if Id_int (expr_id e) = Id_int SpecificId then Some e else None)"

definition cast :: "'a Expression_scheme \<Rightarrow> Id \<Rightarrow> fatal + 'a Expression_scheme" where
  "cast e SpecificId = (if Id_int (expr_id e) = Id_int SpecificId then Inr e else Inl AssertionFailed)"

subsection \<open>Constructors\<close>

text \<open>
  The base part of a freshly constructed node, per class. \<open>default_ctor\<close> is \<^verbatim>\<open>T()\<close> and
  \<open>arena_ctor\<close> is \<^verbatim>\<open>T(MixedArena&)\<close>; the result is \<open>None\<close> where the class declares no such
  constructor (and for the two enumerators that name no class). Every class derives from
  \<^verbatim>\<open>SpecificExpression<SID>\<close>, whose constructor runs \<^verbatim>\<open>Expression(SID)\<close>; the bodies that
  assign \<^verbatim>\<open>type\<close> are those of Break, Switch, Return, MemorySize, MemoryGrow, Unreachable
  and BrOnExn.
\<close>

primrec default_ctor :: "Id \<Rightarrow> Expression option" where
  "default_ctor InvalidId = None"
| "default_ctor BlockId = None"
| "default_ctor IfId = Some (Expression_ctor IfId)"
| "default_ctor LoopId = Some (Expression_ctor LoopId)"
| "default_ctor BreakId = Some (Expression_ctor BreakId)"
| "default_ctor SwitchId = None"
| "default_ctor CallId = None"
| "default_ctor CallIndirectId = None"
| "default_ctor LocalGetId = Some (Expression_ctor LocalGetId)"
| "default_ctor LocalSetId = Some (Expression_ctor LocalSetId)"
| "default_ctor GlobalGetId = Some (Expression_ctor GlobalGetId)"
| "default_ctor GlobalSetId = Some (Expression_ctor GlobalSetId)"
| "default_ctor LoadId = Some (Expression_ctor LoadId)"
| "default_ctor StoreId = Some (Expression_ctor StoreId)"
| "default_ctor ConstId = Some (Expression_ctor ConstId)"
| "default_ctor UnaryId = Some (Expression_ctor UnaryId)"
| "default_ctor BinaryId = Some (Expression_ctor BinaryId)"
| "default_ctor SelectId = Some (Expression_ctor SelectId)"
| "default_ctor DropId = Some (Expression_ctor DropId)"
| "default_ctor ReturnId = Some ((Expression_ctor ReturnId)\<lparr>type := unreachable\<rparr>)"
| "default_ctor MemorySizeId = Some ((Expression_ctor MemorySizeId)\<lparr>type := i32\<rparr>)"
| "default_ctor MemoryGrowId = Some ((Expression_ctor MemoryGrowId)\<lparr>type := i32\<rparr>)"
| "default_ctor NopId = Some (Expression_ctor NopId)"
| "default_ctor UnreachableId = Some ((Expression_ctor UnreachableId)\<lparr>type := unreachable\<rparr>)"
| "default_ctor AtomicRMWId = Some (Expression_ctor AtomicRMWId)"
| "default_ctor AtomicCmpxchgId = Some (Expression_ctor AtomicCmpxchgId)"
| "default_ctor AtomicWaitId = Some (Expression_ctor AtomicWaitId)"
| "default_ctor AtomicNotifyId = Some (Expression_ctor AtomicNotifyId)"
| "default_ctor AtomicFenceId = Some (Expression_ctor AtomicFenceId)"
| "default_ctor SIMDExtractId = Some (Expression_ctor SIMDExtractId)"
| "default_ctor SIMDReplaceId = Some (Expression_ctor SIMDReplaceId)"
| "default_ctor SIMDShuffleId = Some (Expression_ctor SIMDShuffleId)"
| "default_ctor SIMDTernaryId = Some (Expression_ctor SIMDTernaryId)"
| "default_ctor SIMDShiftId = Some (Expression_ctor SIMDShiftId)"
| "default_ctor SIMDLoadId = Some (Expression_ctor SIMDLoadId)"
| "default_ctor MemoryInitId = Some (Expression_ctor MemoryInitId)"
| "default_ctor DataDropId = Some (Expression_ctor DataDropId)"
| "default_ctor MemoryCopyId = Some (Expression_ctor MemoryCopyId)"
| "default_ctor MemoryFillId = Some (Expression_ctor MemoryFillId)"
| "default_ctor PopId = Some (Expression_ctor PopId)"
| "default_ctor RefNullId = Some (Expression_ctor RefNullId)"
| "default_ctor RefIsNullId = None"
| "default_ctor RefFuncId = None"
| "default_ctor RefEqId = None"
| "default_ctor TryId = None"
| "default_ctor ThrowId = None"
| "default_ctor RethrowId = None"
| "default_ctor BrOnExnId = Some ((Expression_ctor BrOnExnId)\<lparr>type := unreachable\<rparr>)"
| "default_ctor TupleMakeId = None"
| "default_ctor TupleExtractId = None"
| "default_ctor I31NewId = None"
| "default_ctor I31GetId = None"
| "default_ctor RefTestId = None"
| "default_ctor RefCastId = None"
| "default_ctor BrOnCastId = None"
| "default_ctor RttCanonId = None"
| "default_ctor RttSubId = None"
| "default_ctor StructNewId = None"
| "default_ctor StructGetId = None"
| "default_ctor StructSetId = None"
| "default_ctor ArrayNewId = None"
| "default_ctor ArrayGetId = None"
| "default_ctor ArraySetId = None"
| "default_ctor ArrayLenId = None"
| "default_ctor NumExpressionIds = None"

primrec arena_ctor :: "Id \<Rightarrow> Expression option" where
  "arena_ctor InvalidId = None"
| "arena_ctor BlockId = Some (Expression_ctor BlockId)"
| "arena_ctor IfId = Some (Expression_ctor IfId)"
| "arena_ctor LoopId = Some (Expression_ctor LoopId)"
| "arena_ctor BreakId = Some ((Expression_ctor BreakId)\<lparr>type := unreachable\<rparr>)"
| "arena_ctor SwitchId = Some ((Expression_ctor SwitchId)\<lparr>type := unreachable\<rparr>)"
| "arena_ctor CallId = Some (Expression_ctor CallId)"
| "arena_ctor CallIndirectId = Some (Expression_ctor CallIndirectId)"
| "arena_ctor LocalGetId = Some (Expression_ctor LocalGetId)"
| "arena_ctor LocalSetId = Some (Expression_ctor LocalSetId)"
| "arena_ctor GlobalGetId = Some (Expression_ctor GlobalGetId)"
| "arena_ctor GlobalSetId = Some (Expression_ctor GlobalSetId)"
| "arena_ctor LoadId = Some (Expression_ctor LoadId)"
| "arena_ctor StoreId = Some (Expression_ctor StoreId)"
| "arena_ctor ConstId = Some (Expression_ctor ConstId)"
| "arena_ctor UnaryId = Some (Expression_ctor UnaryId)"
| "arena_ctor BinaryId = Some (Expression_ctor BinaryId)"
| "arena_ctor SelectId = Some (Expression_ctor SelectId)"
| "arena_ctor DropId = Some (Expression_ctor DropId)"
| "arena_ctor ReturnId = Some ((Expression_ctor ReturnId)\<lparr>type := unreachable\<rparr>)"
| "arena_ctor MemorySizeId = Some ((Expression_ctor MemorySizeId)\<lparr>type := i32\<rparr>)"
| "arena_ctor MemoryGrowId = Some ((Expression_ctor MemoryGrowId)\<lparr>type := i32\<rparr>)"
| "arena_ctor NopId = Some (Expression_ctor NopId)"
| "arena_ctor UnreachableId = Some ((Expression_ctor UnreachableId)\<lparr>type := unreachable\<rparr>)"
| "arena_ctor AtomicRMWId = Some (Expression_ctor AtomicRMWId)"
| "arena_ctor AtomicCmpxchgId = Some (Expression_ctor AtomicCmpxchgId)"
| "arena_ctor AtomicWaitId = Some (Expression_ctor AtomicWaitId)"
| "arena_ctor AtomicNotifyId = Some (Expression_ctor AtomicNotifyId)"
| "arena_ctor AtomicFenceId = Some (Expression_ctor AtomicFenceId)"
| "arena_ctor SIMDExtractId = Some (Expression_ctor SIMDExtractId)"
| "arena_ctor SIMDReplaceId = Some (Expression_ctor SIMDReplaceId)"
| "arena_ctor SIMDShuffleId = Some (Expression_ctor SIMDShuffleId)"
| "arena_ctor SIMDTernaryId = Some (Expression_ctor SIMDTernaryId)"
| "arena_ctor SIMDShiftId = Some (Expression_ctor SIMDShiftId)"
| "arena_ctor SIMDLoadId = Some (Expression_ctor SIMDLoadId)"
| "arena_ctor MemoryInitId = Some (Expression_ctor MemoryInitId)"
| "arena_ctor DataDropId = Some (Expression_ctor DataDropId)"
| "arena_ctor MemoryCopyId = Some (Expression_ctor MemoryCopyId)"
| "arena_ctor MemoryFillId = Some (Expression_ctor MemoryFillId)"
| "arena_ctor PopId = Some (Expression_ctor PopId)"
| "arena_ctor RefNullId = Some (Expression_ctor RefNullId)"
| "arena_ctor RefIsNullId = Some (Expression_ctor RefIsNullId)"
| "arena_ctor RefFuncId = Some (Expression_ctor RefFuncId)"
| "arena_ctor RefEqId = Some (Expression_ctor RefEqId)"
| "arena_ctor TryId = Some (Expression_ctor TryId)"
| "arena_ctor ThrowId = Some (Expression_ctor ThrowId)"
| "arena_ctor RethrowId = Some (Expression_ctor RethrowId)"
| "arena_ctor BrOnExnId = Some ((Expression_ctor BrOnExnId)\<lparr>type := unreachable\<rparr>)"
| "arena_ctor TupleMakeId = Some (Expression_ctor TupleMakeId)"
| "arena_ctor TupleExtractId = Some (Expression_ctor TupleExtractId)"
| "arena_ctor I31NewId = Some (Expression_ctor I31NewId)"
| "arena_ctor I31GetId = Some (Expression_ctor I31GetId)"
| "arena_ctor RefTestId = Some (Expression_ctor RefTestId)"
| "arena_ctor RefCastId = Some (Expression_ctor RefCastId)"
| "arena_ctor BrOnCastId = Some (Expression_ctor BrOnCastId)"
| "arena_ctor RttCanonId = Some (Expression_ctor RttCanonId)"
| "arena_ctor RttSubId = Some (Expression_ctor RttSubId)"
| "arena_ctor StructNewId = Some (Expression_ctor StructNewId)"
| "arena_ctor StructGetId = Some (Expression_ctor StructGetId)"
| "arena_ctor StructSetId = Some (Expression_ctor StructSetId)"
| "arena_ctor ArrayNewId = Some (Expression_ctor ArrayNewId)"
| "arena_ctor ArrayGetId = Some (Expression_ctor ArrayGetId)"
| "arena_ctor ArraySetId = Some (Expression_ctor ArraySetId)"
| "arena_ctor ArrayLenId = Some (Expression_ctor ArrayLenId)"
| "arena_ctor NumExpressionIds = None"

subsection \<open>Table and Memory\<close>

type_synonym address32_t = "32 word"
type_synonym address64_t = "64 word"

text \<open>
  \<^verbatim>\<open>struct Address\<close> wraps one \<^verbatim>\<open>uint64_t\<close> and converts implicitly from and to it, so it is
  that integer here. A narrower unsigned value reaches it by zero extension (\<open>ucast\<close>).
\<close>

type_synonym Address = address64_t

text \<open>A segment's \<^verbatim>\<open>offset\<close> is an expression pointer, seen here through its base class.\<close>

record Table_Segment =
  offset :: "Expression option"
  data :: "Name list"

definition Table_kPageSize :: address32_t where
  "Table_kPageSize = 1"

definition Table_kUnlimitedSize :: Index where
  "Table_kUnlimitedSize = - 1"

definition Table_kMaxSize :: Index where
  "Table_kMaxSize = - 1"

record Table =
  exists :: bool
  name :: Name
  initial :: Address
  max' :: Address
  segments :: "Table_Segment list"

text \<open>The member initialisers followed by \<^verbatim>\<open>Table() { name = Name::fromInt(0); }\<close>.\<close>

definition Table_ctor :: Table where
  "Table_ctor = \<lparr>exists = False, name = ''0'', initial = 0, max' = ucast Table_kMaxSize, segments = []\<rparr>"

definition Table_hasMax :: "Table \<Rightarrow> bool" where
  "Table_hasMax t = (max' t \<noteq> ucast Table_kUnlimitedSize)"

record Memory_Segment =
  isPassive :: bool
  offset :: "Expression option"
  data :: "8 word list"

definition Memory_kPageSize :: address32_t where
  "Memory_kPageSize = 64 * 1024"

definition Memory_kUnlimitedSize :: address64_t where
  "Memory_kUnlimitedSize = - 1"

text \<open>
  \<^verbatim>\<open>kMaxSize32 = (uint64_t(4) * 1024 * 1024 * 1024) / kPageSize\<close>: the quotient is computed on
  64 bits and then stored in an \<^verbatim>\<open>address32_t\<close>.
\<close>

definition Memory_kMaxSize32 :: address32_t where
  "Memory_kMaxSize32 = ucast (((4 :: 64 word) * 1024 * 1024 * 1024) div ucast Memory_kPageSize)"

record Memory =
  exists :: bool
  name :: Name
  initial :: Address
  max' :: Address
  segments :: "Memory_Segment list"
  shared :: bool
  indexType :: Type

definition Memory_ctor :: Memory where
  "Memory_ctor = \<lparr>exists = False, name = ''0'', initial = 0, max' = ucast Memory_kMaxSize32,
     segments = [], shared = False, indexType = i32\<rparr>"

definition Memory_hasMax :: "Memory \<Rightarrow> bool" where
  "Memory_hasMax m = (max' m \<noteq> Memory_kUnlimitedSize)"

definition Memory_is64 :: "Memory \<Rightarrow> bool" where
  "Memory_is64 m = (indexType m = i64)"

text \<open>The numbering of the kinds read back: \<open>int_Id (Id_int k) = k\<close>.\<close>

definition int_Id :: "int \<Rightarrow> Id" where
  "int_Id n = (
     if n = 0 then InvalidId else
     if n = 1 then BlockId else
     if n = 2 then IfId else
     if n = 3 then LoopId else
     if n = 4 then BreakId else
     if n = 5 then SwitchId else
     if n = 6 then CallId else
     if n = 7 then CallIndirectId else
     if n = 8 then LocalGetId else
     if n = 9 then LocalSetId else
     if n = 10 then GlobalGetId else
     if n = 11 then GlobalSetId else
     if n = 12 then LoadId else
     if n = 13 then StoreId else
     if n = 14 then ConstId else
     if n = 15 then UnaryId else
     if n = 16 then BinaryId else
     if n = 17 then SelectId else
     if n = 18 then DropId else
     if n = 19 then ReturnId else
     if n = 20 then MemorySizeId else
     if n = 21 then MemoryGrowId else
     if n = 22 then NopId else
     if n = 23 then UnreachableId else
     if n = 24 then AtomicRMWId else
     if n = 25 then AtomicCmpxchgId else
     if n = 26 then AtomicWaitId else
     if n = 27 then AtomicNotifyId else
     if n = 28 then AtomicFenceId else
     if n = 29 then SIMDExtractId else
     if n = 30 then SIMDReplaceId else
     if n = 31 then SIMDShuffleId else
     if n = 32 then SIMDTernaryId else
     if n = 33 then SIMDShiftId else
     if n = 34 then SIMDLoadId else
     if n = 35 then MemoryInitId else
     if n = 36 then DataDropId else
     if n = 37 then MemoryCopyId else
     if n = 38 then MemoryFillId else
     if n = 39 then PopId else
     if n = 40 then RefNullId else
     if n = 41 then RefIsNullId else
     if n = 42 then RefFuncId else
     if n = 43 then RefEqId else
     if n = 44 then TryId else
     if n = 45 then ThrowId else
     if n = 46 then RethrowId else
     if n = 47 then BrOnExnId else
     if n = 48 then TupleMakeId else
     if n = 49 then TupleExtractId else
     if n = 50 then I31NewId else
     if n = 51 then I31GetId else
     if n = 52 then RefTestId else
     if n = 53 then RefCastId else
     if n = 54 then BrOnCastId else
     if n = 55 then RttCanonId else
     if n = 56 then RttSubId else
     if n = 57 then StructNewId else
     if n = 58 then StructGetId else
     if n = 59 then StructSetId else
     if n = 60 then ArrayNewId else
     if n = 61 then ArrayGetId else
     if n = 62 then ArraySetId else
     if n = 63 then ArrayLenId else
     NumExpressionIds)"

subsection \<open>Expression trees\<close>

text \<open>
  What an \<^verbatim>\<open>Expression*\<close> points to: a node of one of the classes, with its \<^verbatim>\<open>type\<close> and its
  fields. The classes with branch targets or with a finalization rule below have a constructor
  of their own, with the fields in the order of the header (\<^verbatim>\<open>nullptr\<close> is \<open>None\<close>):
  \<^verbatim>\<open>Block(type, name, list)\<close>, \<^verbatim>\<open>If(type, condition, ifTrue, ifFalse)\<close>, \<^verbatim>\<open>Loop(type, name, body)\<close>,
  \<^verbatim>\<open>Break(type, name, value, condition)\<close>, \<^verbatim>\<open>Switch(type, targets, default_, condition, value)\<close>,
  \<^verbatim>\<open>Return(type, value)\<close>, \<^verbatim>\<open>BrOnExn(type, name, event, exnref, sent)\<close>. A node of any other
  class is \<open>Other\<close> with its kind, its type and its child expressions in field order.
\<close>

datatype Node =
    Block Type Name "Node list"
  | If' Type Node Node "Node option"
  | Loop Type Name Node
  | Break Type Name "Node option" "Node option"
  | Switch Type "Name list" Name "Node option" "Node option"
  | Return Type "Node option"
  | BrOnExn Type Name Name Node Type
  | Other Id Type "Node list"

text \<open>The base-class part of a node: its kind tag and its \<^verbatim>\<open>type\<close> field.\<close>

primrec base :: "Node \<Rightarrow> Expression" where
  "base (Block t nm list) = \<lparr>expr_id = BlockId, type = t\<rparr>"
| "base (If' t condition ifTrue ifFalse) = \<lparr>expr_id = IfId, type = t\<rparr>"
| "base (Loop t nm body) = \<lparr>expr_id = LoopId, type = t\<rparr>"
| "base (Break t nm val condition) = \<lparr>expr_id = BreakId, type = t\<rparr>"
| "base (Switch t targets default' condition val) = \<lparr>expr_id = SwitchId, type = t\<rparr>"
| "base (Return t val) = \<lparr>expr_id = ReturnId, type = t\<rparr>"
| "base (BrOnExn t nm event exn sent) = \<lparr>expr_id = BrOnExnId, type = t\<rparr>"
| "base (Other k t operands) = \<lparr>expr_id = k, type = t\<rparr>"

text \<open>
  \<^verbatim>\<open>Return() { type = Type::unreachable; }\<close> with \<^verbatim>\<open>Expression* value = nullptr\<close>, and the
  assignment \<^verbatim>\<open>ret->value = v\<close> a builder makes afterwards.
\<close>

definition Return_ctor :: Node where
  "Return_ctor = Return unreachable None"

fun Return_set_value :: "Node option \<Rightarrow> Node \<Rightarrow> Node" where
  "Return_set_value v (Return t val) = Return t v"

section \<open>Type finalization\<close>

subsection \<open>Defined in the header\<close>

text \<open>
  \<^verbatim>\<open>void Expression::finalize() {}\<close>: the member every class inherits that declares no
  \<^verbatim>\<open>finalize\<close> of its own (Nop, LocalGet, GlobalGet, Return, Unreachable, Pop).
\<close>

definition Expression_finalize :: "Node \<Rightarrow> Node" where
  "Expression_finalize e = e"

text \<open>
  Modelled from the spec: the macro \<^verbatim>\<open>WASM_UNREACHABLE\<close> is used by wasm.h and defined outside
  the sources. By the spec, invoking an unimplemented aggregate-type operation is a fatal,
  unrecoverable abort: the call does not return.
\<close>

definition WASM_UNREACHABLE :: "string \<Rightarrow> fatal + 'a" where
  "WASM_UNREACHABLE msg = Inl (WasmUnreachable msg)"

text \<open>The twelve classes whose \<^verbatim>\<open>finalize\<close> is defined in the header as that macro alone.\<close>

definition RefTest_finalize :: "Node \<Rightarrow> fatal + Node" where
  "RefTest_finalize e = WASM_UNREACHABLE ''TODO (gc): ref.test''"

definition RefCast_finalize :: "Node \<Rightarrow> fatal + Node" where
  "RefCast_finalize e = WASM_UNREACHABLE ''TODO (gc): ref.cast''"

definition BrOnCast_finalize :: "Node \<Rightarrow> fatal + Node" where
  "BrOnCast_finalize e = WASM_UNREACHABLE ''TODO (gc): br_on_cast''"

definition RttCanon_finalize :: "Node \<Rightarrow> fatal + Node" where
  "RttCanon_finalize e = WASM_UNREACHABLE ''TODO (gc): rtt.canon''"

definition RttSub_finalize :: "Node \<Rightarrow> fatal + Node" where
  "RttSub_finalize e = WASM_UNREACHABLE ''TODO (gc): rtt.sub''"

definition StructNew_finalize :: "Node \<Rightarrow> fatal + Node" where
  "StructNew_finalize e = WASM_UNREACHABLE ''TODO (gc): struct.new''"

definition StructGet_finalize :: "Node \<Rightarrow> fatal + Node" where
  "StructGet_finalize e = WASM_UNREACHABLE ''TODO (gc): struct.get''"

definition StructSet_finalize :: "Node \<Rightarrow> fatal + Node" where
  "StructSet_finalize e = WASM_UNREACHABLE ''TODO (gc): struct.set''"

definition ArrayNew_finalize :: "Node \<Rightarrow> fatal + Node" where
  "ArrayNew_finalize e = WASM_UNREACHABLE ''TODO (gc): array.new''"

definition ArrayGet_finalize :: "Node \<Rightarrow> fatal + Node" where
  "ArrayGet_finalize e = WASM_UNREACHABLE ''TODO (gc): array.get''"

definition ArraySet_finalize :: "Node \<Rightarrow> fatal + Node" where
  "ArraySet_finalize e = WASM_UNREACHABLE ''TODO (gc): array.set''"

definition ArrayLen_finalize :: "Node \<Rightarrow> fatal + Node" where
  "ArrayLen_finalize e = WASM_UNREACHABLE ''TODO (gc): array.len''"

subsection \<open>Block: declared in the header, defined elsewhere\<close>

text \<open>
  The type a branch carries to its target: the type of its value, "none" without a value;
  for \<^verbatim>\<open>BrOnExn\<close> the field \<^verbatim>\<open>sent\<close>, which the header describes as the type of the value
  sent to the target block.
\<close>

fun valueType :: "Node option \<Rightarrow> Type" where
  "valueType None = none"
| "valueType (Some e) = type (base e)"

text \<open>
  Modelled from the spec: the scan of a block's contents that \<^verbatim>\<open>Block::finalize()\<close> makes
  (the header: "set the type purely based on its contents. this scans the block") is not part
  of the sources. Branch targets are the \<^verbatim>\<open>name\<close> fields of Break and Switch (and BrOnExn),
  which refer to an enclosing Block by name; \<open>branchTypes n e\<close> lists the types carried by
  the branches to \<open>n\<close> inside \<open>e\<close>.
\<close>

fun branchTypes :: "Name \<Rightarrow> Node \<Rightarrow> Type list" where
  "branchTypes n (Block t nm list) = concat (map (branchTypes n) list)"
| "branchTypes n (If' t condition ifTrue ifFalse) =
     branchTypes n condition @ branchTypes n ifTrue
     @ (case ifFalse of None \<Rightarrow> [] | Some e \<Rightarrow> branchTypes n e)"
| "branchTypes n (Loop t nm body) = branchTypes n body"
| "branchTypes n (Break t nm val condition) =
     (if nm = n then [valueType val] else [])
     @ (case val of None \<Rightarrow> [] | Some e \<Rightarrow> branchTypes n e)
     @ (case condition of None \<Rightarrow> [] | Some e \<Rightarrow> branchTypes n e)"
| "branchTypes n (Switch t targets default' condition val) =
     (if n \<in> set targets \<or> default' = n then [valueType val] else [])
     @ (case condition of None \<Rightarrow> [] | Some e \<Rightarrow> branchTypes n e)
     @ (case val of None \<Rightarrow> [] | Some e \<Rightarrow> branchTypes n e)"
| "branchTypes n (Return t val) = (case val of None \<Rightarrow> [] | Some e \<Rightarrow> branchTypes n e)"
| "branchTypes n (BrOnExn t nm event exn sent) =
     (if nm = n then [sent] else []) @ branchTypes n exn"
| "branchTypes n (Other k t operands) = concat (map (branchTypes n) operands)"

text \<open>
  A named block is a branch target; \<open>breaksTo name list\<close> are the types its contents send
  to it.
\<close>

definition breaksTo :: "Name \<Rightarrow> Node list \<Rightarrow> Type list" where
  "breaksTo nm list = (if Name_is nm then concat (map (branchTypes nm) list) else [])"

text \<open>
  The last statement of a block is reached by falling through when no statement before it
  has type "unreachable".
\<close>

definition lastReachable :: "Node list \<Rightarrow> bool" where
  "lastReachable list = list_all (\<lambda>e. type (base e) \<noteq> unreachable) (butlast list)"

text \<open>
  Modelled from the spec: \<^verbatim>\<open>Block::finalize()\<close> is declared in wasm.h and its body is not
  part of the sources. The spec's rule: the type is the type of the last statement if that
  statement is reachable; if the block is empty the type is "none"; if the block is never
  left by falling through, the type is "none" unless the whole block diverges and nothing
  breaks out of it with a concrete type, which gives "unreachable".
\<close>

definition Block_type :: "Name \<Rightarrow> Node list \<Rightarrow> Type" where
  "Block_type nm list =
     (if list = [] then none
      else if lastReachable list then type (base (last list))
      else if list_ex isConcrete (breaksTo nm list) then none
      else unreachable)"

fun Block_finalize :: "Node \<Rightarrow> Node" where
  "Block_finalize (Block t nm list) = Block (Block_type nm list) nm list"

section \<open>Functions and the module registry\<close>

subsection \<open>Function\<close>

text \<open>
  Modelled from the spec: \<^verbatim>\<open>Signature\<close> belongs to wasm-type.h, which is not part of the
  sources; by the spec a signature is the parameters and the results.
\<close>

record Signature =
  params :: "Type list"
  results :: "Type list"

text \<open>
  The fields of \<^verbatim>\<open>class Function\<close> the operations below read or write. The two name maps are
  \<^verbatim>\<open>std::map<Index, Name> localNames\<close> and \<^verbatim>\<open>std::map<Name, Index> localIndices\<close>.
\<close>

record Function =
  name :: Name
  sig :: Signature
  vars :: "Type list"
  body :: "Node option"
  localNames :: "Index \<rightharpoonup> Name"
  localIndices :: "Name \<rightharpoonup> Index"









definition hasLocalName :: "Function \<Rightarrow> Index \<Rightarrow> bool" where
  "hasLocalName f index = (localNames f index \<noteq> None)"





subsection \<open>The other module-level entities\<close>

datatype ExternalKind =
  ExternalFunction | ExternalTable | ExternalMemory | ExternalGlobal | ExternalEvent
  | ExternalInvalid

text \<open>\<^verbatim>\<open>class Export\<close>: the exported name is the key, \<^verbatim>\<open>value\<close> is the internal name.\<close>

record Export =
  name :: Name
  "value" :: Name
  kind :: ExternalKind

text \<open>\<^verbatim>\<open>class Global\<close>, with its fields \<^verbatim>\<open>type\<close> and \<^verbatim>\<open>mutable_\<close> primed.\<close>

record Global =
  name :: Name
  type' :: Type
  init :: "Node option"
  mutable' :: bool

record Event =
  name :: Name
  attribute :: "32 word"
  sig :: Signature

subsection \<open>Module\<close>

text \<open>
  The owning sequences of \<^verbatim>\<open>class Module\<close> (each a vector of \<^verbatim>\<open>unique_ptr\<close>), its table and
  memory, and the four private lookup maps from a name to the entity. An entity is held by
  value in the sequence and in the map.
\<close>

record Module =
  exports :: "Export list"
  "functions" :: "Function list"
  globals :: "Global list"
  events :: "Event list"
  table :: Table
  memory :: Memory
  start :: Name
  name :: Name
  exportsMap :: "Name \<rightharpoonup> Export"
  functionsMap :: "Name \<rightharpoonup> Function"
  globalsMap :: "Name \<rightharpoonup> Global"
  eventsMap :: "Name \<rightharpoonup> Event"

text \<open>\<^verbatim>\<open>Module() = default\<close>: empty sequences and maps, the default table and memory.\<close>

definition Module_ctor :: Module where
  "Module_ctor = \<lparr>exports = [], functions = [], globals = [], events = [],
     table = Table_ctor, memory = Memory_ctor, start = [], name = [],
     exportsMap = Map.empty, functionsMap = Map.empty, globalsMap = Map.empty,
     eventsMap = Map.empty\<rparr>"

text \<open>
  Modelled from the spec: the registry operations of \<^verbatim>\<open>Module\<close> are declared in wasm.h and
  their bodies are not part of the sources. By the spec, per entity kind: \<^verbatim>\<open>add\<close> inserts into
  the owning sequence and into the lookup map under the entity's current name; \<^verbatim>\<open>get\<close>
  returns the entity and fails fatally if it is absent; \<^verbatim>\<open>getOrNull\<close> returns a nullable
  result instead; \<^verbatim>\<open>remove\<close> removes from both the sequence and the map. \<^verbatim>\<open>add\<close> returns
  the pointer it was given; the model returns the module after the call.
\<close>

definition getExportOrNull :: "Module \<Rightarrow> Name \<Rightarrow> Export option" where
  "getExportOrNull m n = exportsMap m n"

definition getExport :: "Module \<Rightarrow> Name \<Rightarrow> fatal + Export" where
  "getExport m n = (case exportsMap m n of None \<Rightarrow> Inl (Fatal n) | Some x \<Rightarrow> Inr x)"

definition addExport :: "Module \<Rightarrow> Export \<Rightarrow> Module" where
  "addExport m x =
     m\<lparr>exports := exports m @ [x], exportsMap := (exportsMap m)(Export.name x \<mapsto> x)\<rparr>"

definition removeExport :: "Module \<Rightarrow> Name \<Rightarrow> Module" where
  "removeExport m n =
     m\<lparr>exports := filter (\<lambda>x. Export.name x \<noteq> n) (exports m), exportsMap := (exportsMap m)(n := None)\<rparr>"

definition getFunctionOrNull :: "Module \<Rightarrow> Name \<Rightarrow> Function option" where
  "getFunctionOrNull m n = functionsMap m n"

definition getFunction :: "Module \<Rightarrow> Name \<Rightarrow> fatal + Function" where
  "getFunction m n = (case functionsMap m n of None \<Rightarrow> Inl (Fatal n) | Some x \<Rightarrow> Inr x)"

definition addFunction :: "Module \<Rightarrow> Function \<Rightarrow> Module" where
  "addFunction m x =
     m\<lparr>functions := functions m @ [x], functionsMap := (functionsMap m)(Function.name x \<mapsto> x)\<rparr>"

definition removeFunction :: "Module \<Rightarrow> Name \<Rightarrow> Module" where
  "removeFunction m n =
     m\<lparr>functions := filter (\<lambda>x. Function.name x \<noteq> n) (functions m), functionsMap := (functionsMap m)(n := None)\<rparr>"

definition getGlobalOrNull :: "Module \<Rightarrow> Name \<Rightarrow> Global option" where
  "getGlobalOrNull m n = globalsMap m n"

definition getGlobal :: "Module \<Rightarrow> Name \<Rightarrow> fatal + Global" where
  "getGlobal m n = (case globalsMap m n of None \<Rightarrow> Inl (Fatal n) | Some x \<Rightarrow> Inr x)"

definition addGlobal :: "Module \<Rightarrow> Global \<Rightarrow> Module" where
  "addGlobal m x =
     m\<lparr>globals := globals m @ [x], globalsMap := (globalsMap m)(Global.name x \<mapsto> x)\<rparr>"

definition removeGlobal :: "Module \<Rightarrow> Name \<Rightarrow> Module" where
  "removeGlobal m n =
     m\<lparr>globals := filter (\<lambda>x. Global.name x \<noteq> n) (globals m), globalsMap := (globalsMap m)(n := None)\<rparr>"

definition getEventOrNull :: "Module \<Rightarrow> Name \<Rightarrow> Event option" where
  "getEventOrNull m n = eventsMap m n"

definition getEvent :: "Module \<Rightarrow> Name \<Rightarrow> fatal + Event" where
  "getEvent m n = (case eventsMap m n of None \<Rightarrow> Inl (Fatal n) | Some x \<Rightarrow> Inr x)"

definition addEvent :: "Module \<Rightarrow> Event \<Rightarrow> Module" where
  "addEvent m x =
     m\<lparr>events := events m @ [x], eventsMap := (eventsMap m)(Event.name x \<mapsto> x)\<rparr>"

definition removeEvent :: "Module \<Rightarrow> Name \<Rightarrow> Module" where
  "removeEvent m n =
     m\<lparr>events := filter (\<lambda>x. Event.name x \<noteq> n) (events m), eventsMap := (eventsMap m)(n := None)\<rparr>"

section \<open>Kind-tag queries\<close>

lemma int_Id_Id_int: "int_Id (Id_int k) = k"
  by (cases k) (simp_all add: int_Id_def)

lemma Id_int_eq_iff: "Id_int a = Id_int b \<longleftrightarrow> a = b"
  by (metis int_Id_Id_int)

text \<open>
  C5. A node whose kind tag is \<open>K\<close> answers \<^verbatim>\<open>is<K>()\<close> with true and \<^verbatim>\<open>is<K2>()\<close> with false
  for every other kind \<open>K2\<close>; \<^verbatim>\<open>dynCast<K>()\<close> returns the node itself and \<^verbatim>\<open>dynCast<K2>()\<close>
  returns the null pointer; \<^verbatim>\<open>cast<K>()\<close> returns the node and \<^verbatim>\<open>cast<K2>()\<close> fails its
  assertion.
\<close>

theorem kind_tag_queries:
  assumes "expr_id e = K" and "K2 \<noteq> K"
  shows "Expression_is e K \<and> \<not> Expression_is e K2
       \<and> dynCast e K = Some e \<and> dynCast e K2 = None
       \<and> cast e K = Inr e \<and> cast e K2 = Inl AssertionFailed"
  using assms by (auto simp: Expression_is_def dynCast_def cast_def Id_int_eq_iff)

theorem kind_tag_queries_witness:
  "expr_id (Expression_ctor BlockId) = BlockId \<and> IfId \<noteq> BlockId
   \<and> Expression_is (Expression_ctor BlockId) BlockId
   \<and> \<not> Expression_is (Expression_ctor BlockId) IfId
   \<and> dynCast (Expression_ctor BlockId) BlockId = Some (Expression_ctor BlockId)
   \<and> dynCast (Expression_ctor BlockId) IfId = None
   \<and> cast (Expression_ctor BlockId) BlockId = Inr (Expression_ctor BlockId)
   \<and> cast (Expression_ctor BlockId) IfId = Inl AssertionFailed"
proof -
  have a: "expr_id (Expression_ctor BlockId) = BlockId"
    by (simp add: Expression_ctor_def)
  have b: "IfId \<noteq> BlockId"
    by simp
  show ?thesis
    using a b kind_tag_queries [OF a b] by simp
qed

section \<open>Construction-time types\<close>

lemma default_ctor_type:
  "default_ctor k = Some e \<Longrightarrow>
     expr_id e = k \<and>
     type e = (if k \<in> {ReturnId, UnreachableId, BrOnExnId} then unreachable
               else if k \<in> {MemorySizeId, MemoryGrowId} then i32 else none)"
  by (cases k) (auto simp: Expression_ctor_def)

lemma arena_ctor_type:
  "arena_ctor k = Some e \<Longrightarrow>
     expr_id e = k \<and>
     type e = (if k \<in> {BreakId, SwitchId, ReturnId, UnreachableId, BrOnExnId} then unreachable
               else if k \<in> {MemorySizeId, MemoryGrowId} then i32 else none)"
  by (cases k) (auto simp: Expression_ctor_def)

lemma arena_ctor_total: "k \<noteq> InvalidId \<Longrightarrow> k \<noteq> NumExpressionIds \<Longrightarrow> arena_ctor k \<noteq> None"
  by (cases k) simp_all

text \<open>
  C9. A newly constructed node has type "none", except that an arena-constructed Break, an
  arena-constructed Switch, and a Return, Unreachable or BrOnExn node have type
  "unreachable", and a MemorySize or MemoryGrow node has type i32. A default-constructed
  Break has type "none". Every class has an arena constructor.
\<close>

theorem construction_default_types:
  "(default_ctor k = Some e \<longrightarrow>
      expr_id e = k \<and>
      type e = (if k \<in> {ReturnId, UnreachableId, BrOnExnId} then unreachable
                else if k \<in> {MemorySizeId, MemoryGrowId} then i32 else none))
   \<and> (arena_ctor k = Some e' \<longrightarrow>
      expr_id e' = k \<and>
      type e' = (if k \<in> {BreakId, SwitchId, ReturnId, UnreachableId, BrOnExnId} then unreachable
                 else if k \<in> {MemorySizeId, MemoryGrowId} then i32 else none))
   \<and> (k \<noteq> InvalidId \<and> k \<noteq> NumExpressionIds \<longrightarrow> arena_ctor k \<noteq> None)
   \<and> default_ctor BreakId = Some \<lparr>expr_id = BreakId, type = none\<rparr>
   \<and> arena_ctor BreakId = Some \<lparr>expr_id = BreakId, type = unreachable\<rparr>"
  using default_ctor_type [of k e] arena_ctor_type [of k e'] arena_ctor_total [of k]
  by (simp add: Expression_ctor_def)

theorem construction_default_types_witness:
  "default_ctor MemorySizeId = Some \<lparr>expr_id = MemorySizeId, type = i32\<rparr>
   \<and> arena_ctor SwitchId = Some \<lparr>expr_id = SwitchId, type = unreachable\<rparr>
   \<and> arena_ctor MemorySizeId = Some \<lparr>expr_id = MemorySizeId, type = i32\<rparr>
   \<and> arena_ctor MemorySizeId \<noteq> None
   \<and> default_ctor BreakId = Some \<lparr>expr_id = BreakId, type = none\<rparr>"
  using construction_default_types
    [of MemorySizeId "\<lparr>expr_id = MemorySizeId, type = i32\<rparr>"
        "\<lparr>expr_id = MemorySizeId, type = i32\<rparr>"]
  by (simp add: Expression_ctor_def)

section \<open>Size limits\<close>

lemma Memory_kMaxSize32_value: "Memory_kMaxSize32 = 65536"
  by (simp add: Memory_kMaxSize32_def Memory_kPageSize_def)

text \<open>
  C10. The page size of a memory is 64 KiB and \<^verbatim>\<open>kMaxSize32\<close> is 65536 pages; a
  default-constructed Memory has that maximum, which differs from \<^verbatim>\<open>kUnlimitedSize\<close>, so
  \<^verbatim>\<open>hasMax()\<close> is true. A default-constructed Table has the maximum \<^verbatim>\<open>kMaxSize = Index(-1)\<close>,
  which equals \<^verbatim>\<open>kUnlimitedSize\<close>, so \<^verbatim>\<open>Table::hasMax()\<close> is false.
\<close>

theorem default_size_limits:
  "unat Memory_kPageSize = 64 * 1024
   \<and> unat Memory_kMaxSize32 = (4 * 1024 * 1024 * 1024) div 65536
   \<and> unat Memory_kMaxSize32 = 65536
   \<and> unat (Memory.max' Memory_ctor) = 65536
   \<and> Memory.max' Memory_ctor \<noteq> Memory_kUnlimitedSize
   \<and> Memory_hasMax Memory_ctor
   \<and> unat Table_kMaxSize = 2 ^ 32 - 1
   \<and> Table_kMaxSize = Table_kUnlimitedSize
   \<and> Table.max' Table_ctor = ucast Table_kUnlimitedSize
   \<and> \<not> Table_hasMax Table_ctor"
  by (simp add: Memory_kMaxSize32_value Memory_kPageSize_def Memory_ctor_def
      Memory_hasMax_def Memory_kUnlimitedSize_def Table_kMaxSize_def Table_kUnlimitedSize_def
      Table_ctor_def Table_hasMax_def unsigned_minus_1_eq_mask mask_eq_exp_minus_1)

theorem default_size_limits_witness:
  "Memory_hasMax Memory_ctor \<and> \<not> Table_hasMax Table_ctor
   \<and> unat (Table.max' Table_ctor) = 4294967295"
  using default_size_limits
  by (simp add: Table_kUnlimitedSize_def unsigned_minus_1_eq_mask mask_eq_exp_minus_1)

section \<open>Finalization of the unimplemented operations\<close>

text \<open>
  C8. For a node of each of the twelve stubbed kinds (RefTest, RefCast, BrOnCast, RttCanon,
  RttSub, StructNew, StructGet, StructSet, ArrayNew, ArrayGet, ArraySet, ArrayLen),
  \<^verbatim>\<open>finalize()\<close> ends in the fatal failure of \<^verbatim>\<open>WASM_UNREACHABLE\<close>, whatever the node: it
  returns no node and sets no type.
\<close>

theorem stub_finalize_aborts:
  "RefTest_finalize e = Inl (WasmUnreachable ''TODO (gc): ref.test'')
   \<and> RefCast_finalize e = Inl (WasmUnreachable ''TODO (gc): ref.cast'')
   \<and> BrOnCast_finalize e = Inl (WasmUnreachable ''TODO (gc): br_on_cast'')
   \<and> RttCanon_finalize e = Inl (WasmUnreachable ''TODO (gc): rtt.canon'')
   \<and> RttSub_finalize e = Inl (WasmUnreachable ''TODO (gc): rtt.sub'')
   \<and> StructNew_finalize e = Inl (WasmUnreachable ''TODO (gc): struct.new'')
   \<and> StructGet_finalize e = Inl (WasmUnreachable ''TODO (gc): struct.get'')
   \<and> StructSet_finalize e = Inl (WasmUnreachable ''TODO (gc): struct.set'')
   \<and> ArrayNew_finalize e = Inl (WasmUnreachable ''TODO (gc): array.new'')
   \<and> ArrayGet_finalize e = Inl (WasmUnreachable ''TODO (gc): array.get'')
   \<and> ArraySet_finalize e = Inl (WasmUnreachable ''TODO (gc): array.set'')
   \<and> ArrayLen_finalize e = Inl (WasmUnreachable ''TODO (gc): array.len'')"
  by (simp add: WASM_UNREACHABLE_def RefTest_finalize_def RefCast_finalize_def
      BrOnCast_finalize_def RttCanon_finalize_def RttSub_finalize_def StructNew_finalize_def
      StructGet_finalize_def StructSet_finalize_def ArrayNew_finalize_def ArrayGet_finalize_def
      ArraySet_finalize_def ArrayLen_finalize_def)

theorem stub_finalize_aborts_witness:
  "RefTest_finalize (Other RefTestId none []) = Inl (WasmUnreachable ''TODO (gc): ref.test'')
   \<and> ArrayLen_finalize (Other ArrayLenId none []) = Inl (WasmUnreachable ''TODO (gc): array.len'')"
  using stub_finalize_aborts [of "Other RefTestId none []"]
    stub_finalize_aborts [of "Other ArrayLenId none []"]
  by simp

section \<open>Finalization of Return\<close>

text \<open>
  The Return node of the tree is the one the constructor table gives. Return declares no
  \<^verbatim>\<open>finalize\<close>, so the call is the empty member of the base class: a Return keeps the type
  "unreachable" its constructor gave it, whatever value it returns.
\<close>

lemma Return_ctor_base: "Some (base Return_ctor) = default_ctor ReturnId"
  by (simp add: Return_ctor_def Expression_ctor_def)

lemma Return_finalize_unreachable:
  "type (base (Expression_finalize (Return_set_value v Return_ctor))) = unreachable"
  by (simp add: Expression_finalize_def Return_ctor_def)

section \<open>Finalization of Block\<close>

lemma Block_type_reachable:
  "list \<noteq> [] \<Longrightarrow> lastReachable list \<Longrightarrow> Block_type n list = type (base (last list))"
  by (simp add: Block_type_def)

text \<open>
  C1. \<^verbatim>\<open>Block::finalize()\<close> sets the type to "none" when the list is empty; to "unreachable"
  when the only statement is a Return; and to \<open>T\<close> when the last statement is reachable and
  has the concrete type \<open>T\<close> and every branch into the block carries \<open>T\<close>.
\<close>

theorem Block_finalize_cases:
  "type (base (Block_finalize (Block t n []))) = none
   \<and> type (base (Block_finalize (Block t n [Return_set_value v Return_ctor]))) = unreachable
   \<and> (list \<noteq> [] \<and> lastReachable list \<and> type (base (last list)) = T \<and> isConcrete T
        \<and> list_all (\<lambda>ty. ty = T) (breaksTo n list)
      \<longrightarrow> type (base (Block_finalize (Block t n list))) = T)"
  by (simp add: Block_type_def Return_ctor_def lastReachable_def)

theorem Block_finalize_cases_witness:
  "[Other DropId none [Break i32 ''out'' (Some (Other ConstId i32 [])) (Some (Other LocalGetId i32 []))],
    Other ConstId i32 []] \<noteq> []
   \<and> lastReachable
        [Other DropId none [Break i32 ''out'' (Some (Other ConstId i32 [])) (Some (Other LocalGetId i32 []))],
         Other ConstId i32 []]
   \<and> type (base (last
        [Other DropId none [Break i32 ''out'' (Some (Other ConstId i32 [])) (Some (Other LocalGetId i32 []))],
         Other ConstId i32 []])) = i32
   \<and> isConcrete i32
   \<and> breaksTo ''out''
        [Other DropId none [Break i32 ''out'' (Some (Other ConstId i32 [])) (Some (Other LocalGetId i32 []))],
         Other ConstId i32 []] = [i32]
   \<and> type (base (Block_finalize (Block none ''out''
        [Other DropId none [Break i32 ''out'' (Some (Other ConstId i32 [])) (Some (Other LocalGetId i32 []))],
         Other ConstId i32 []]))) = i32
   \<and> lastReachable
        [If' none (Other LocalGetId i32 []) (Return_set_value (Some (Other ConstId i32 [])) Return_ctor) None,
         Other ConstId i32 []]
   \<and> breaksTo []
        [If' none (Other LocalGetId i32 []) (Return_set_value (Some (Other ConstId i32 [])) Return_ctor) None,
         Other ConstId i32 []] = []
   \<and> type (base (Block_finalize (Block none []
        [If' none (Other LocalGetId i32 []) (Return_set_value (Some (Other ConstId i32 [])) Return_ctor) None,
         Other ConstId i32 []]))) = i32
   \<and> type (base (Block_finalize (Block i32 ''out'' []))) = none
   \<and> type (base (Block_finalize (Block none ''out''
        [Return_set_value None Return_ctor]))) = unreachable"
  using Block_finalize_cases
    [of none "''out''" None
        "[Other DropId none [Break i32 ''out'' (Some (Other ConstId i32 [])) (Some (Other LocalGetId i32 []))],
          Other ConstId i32 []]" i32]
    Block_finalize_cases
    [of none "[]" None
        "[If' none (Other LocalGetId i32 []) (Return_set_value (Some (Other ConstId i32 [])) Return_ctor) None,
          Other ConstId i32 []]" i32]
    Block_finalize_cases [of i32 "''out''" None "[]" none]
  by (simp add: lastReachable_def isConcrete_def breaksTo_def Name_is_def Return_ctor_def)

text \<open>
  The rule of Block reads the children and never the node's own type, and the inherited
  \<^verbatim>\<open>finalize\<close> changes nothing, so a second call of either changes nothing.
\<close>

lemma finalize_twice:
  "Block_finalize (Block_finalize (Block t n list)) = Block_finalize (Block t n list)"
  "Expression_finalize (Expression_finalize e) = Expression_finalize e"
  by (simp_all add: Expression_finalize_def)

section \<open>The module registry\<close>

text \<open>
  C4. For exports, functions, globals and events: after \<^verbatim>\<open>add(e)\<close> the fatal lookup
  \<^verbatim>\<open>get(e.name)\<close> returns \<open>e\<close>; after \<^verbatim>\<open>remove(name)\<close> the lookup \<^verbatim>\<open>getOrNull(name)\<close> returns
  the null pointer; and for a name absent from the lookup map \<^verbatim>\<open>get(name)\<close> fails fatally
  while \<^verbatim>\<open>getOrNull(name)\<close> returns the null pointer.
\<close>

theorem registry_round_trip:
  "getExport (addExport m ex) (Export.name ex) = Inr ex
   \<and> getExportOrNull (removeExport m n) n = None
   \<and> (exportsMap m n = None \<longrightarrow> getExport m n = Inl (Fatal n) \<and> getExportOrNull m n = None)
   \<and> getFunction (addFunction m fu) (Function.name fu) = Inr fu
   \<and> getFunctionOrNull (removeFunction m n) n = None
   \<and> (functionsMap m n = None \<longrightarrow> getFunction m n = Inl (Fatal n) \<and> getFunctionOrNull m n = None)
   \<and> getGlobal (addGlobal m gl) (Global.name gl) = Inr gl
   \<and> getGlobalOrNull (removeGlobal m n) n = None
   \<and> (globalsMap m n = None \<longrightarrow> getGlobal m n = Inl (Fatal n) \<and> getGlobalOrNull m n = None)
   \<and> getEvent (addEvent m ev) (Event.name ev) = Inr ev
   \<and> getEventOrNull (removeEvent m n) n = None
   \<and> (eventsMap m n = None \<longrightarrow> getEvent m n = Inl (Fatal n) \<and> getEventOrNull m n = None)"
  by (simp add: getExport_def getExportOrNull_def addExport_def removeExport_def
      getFunction_def getFunctionOrNull_def addFunction_def removeFunction_def
      getGlobal_def getGlobalOrNull_def addGlobal_def removeGlobal_def
      getEvent_def getEventOrNull_def addEvent_def removeEvent_def)

theorem registry_round_trip_witness:
  "functionsMap Module_ctor ''f'' = None
   \<and> exportsMap Module_ctor ''f'' = None
   \<and> globalsMap Module_ctor ''f'' = None
   \<and> eventsMap Module_ctor ''f'' = None
   \<and> getFunctionOrNull Module_ctor ''f'' = None
   \<and> getFunction Module_ctor ''f'' = Inl (Fatal ''f'')
   \<and> getExportOrNull Module_ctor ''f'' = None
   \<and> getExport Module_ctor ''f'' = Inl (Fatal ''f'')
   \<and> getGlobalOrNull Module_ctor ''f'' = None
   \<and> getGlobal Module_ctor ''f'' = Inl (Fatal ''f'')
   \<and> getEventOrNull Module_ctor ''f'' = None
   \<and> getEvent Module_ctor ''f'' = Inl (Fatal ''f'')"
  using registry_round_trip [where m = Module_ctor and n = "''f''"]
  by (simp add: Module_ctor_def)

section \<open>Local names of a function\<close>







end
